theory Spec2Isabelle
  imports Complex_Main "HOL-Library.Sublist"
begin

section \<open>The client factory\<close>

text \<open>
  The objects that \<^verbatim>\<open>create_ultra_optimized_client\<close> builds, one record per
  constructor call of the source, each field an argument of that call.
  Durations and clock readings are real numbers: arithmetic on them is exact.
\<close>

record Limits =
  max_keepalive_connections :: nat
  max_connections :: nat
  keepalive_expiry :: real

text \<open>\<^verbatim>\<open>httpx.Timeout(connect, read, write, pool)\<close>, the fields prefixed with \<open>t_\<close>.\<close>

record Timeout =
  t_connect :: real
  t_read :: real
  t_write :: real
  t_pool :: real

record AsyncHTTPTransport =
  transport_http2 :: bool
  retries :: nat

record AsyncClient =
  limits :: Limits
  transport :: AsyncHTTPTransport
  timeout :: Timeout
  http2 :: bool
  follow_redirects :: bool
  headers :: "(string \<times> string) list"
  trust_env :: bool

text \<open>
  \<^verbatim>\<open>AsyncMemoryClient(api_key=..., client=...)\<close>; the \<^verbatim>\<open>client\<close> argument is
  optional (the "original" client of the comparison is built without it).
\<close>

record AsyncMemoryClient =
  api_key :: string
  client :: "AsyncClient option"

definition create_ultra_optimized_client :: "string \<Rightarrow> AsyncMemoryClient" where
  "create_ultra_optimized_client key =
     (let limits_v = \<lparr>max_keepalive_connections = 50, max_connections = 200,
                      keepalive_expiry = 60\<rparr>;
          timeout_v = \<lparr>t_connect = 2, t_read = 8, t_write = 2, t_pool = 1 / 2\<rparr>;
          transport_v = \<lparr>transport_http2 = True, retries = 1\<rparr>;
          headers_v =
            [(''Connection'', ''keep-alive''),
             (''Keep-Alive'', ''timeout=60, max=200''),
             (''User-Agent'', ''mem0-ultra-optimized/1.0''),
             (''Accept-Encoding'', ''gzip, deflate, br''),
             (''Cache-Control'', ''no-cache''),
             (''Pragma'', ''no-cache''),
             (''Upgrade-Insecure-Requests'', ''1'')];
          httpx_client =
            \<lparr>limits = limits_v, transport = transport_v, timeout = timeout_v,
             http2 = True, follow_redirects = True, headers = headers_v,
             trust_env = False\<rparr>
      in \<lparr>api_key = key, client = Some httpx_client\<rparr>)"

text \<open>
  The pool limit configured for a client: the \<^verbatim>\<open>max_connections\<close> of the
  limits its httpx client is constructed with; none when the SDK builds the
  httpx client itself.
\<close>

definition pool_limit :: "AsyncMemoryClient \<Rightarrow> nat option" where
  "pool_limit c = map_option (\<lambda>h. max_connections (limits h)) (client c)"

section \<open>The world of a run\<close>

text \<open>
  Exceptions are values. \<open>Exception msg\<close> is what a failed request raises (any
  instance of Python's \<^verbatim>\<open>Exception\<close> class, which is what the handlers of the
  source catch); \<open>ZeroDivisionError\<close> and \<open>ValueError\<close> are what the arithmetic
  and \<^verbatim>\<open>min\<close>/\<^verbatim>\<open>max\<close> of the source raise.
\<close>

datatype exn = Exception string | ZeroDivisionError | ValueError

text \<open>
  What one call of \<^verbatim>\<open>client.search\<close> does: it returns items, or the request
  fails (authentication, timeout, server or network error) and the call raises
  an exception with a message. Signals that are not instances of
  \<^verbatim>\<open>Exception\<close> (an interrupt from the keyboard, the cancellation of the
  task) are not outcomes of a request and are outside the model. The
  constructors of the SDK's objects are records: constructing them does not fail.
\<close>

datatype outcome = Returns "string list" | Raises string

text \<open>
  The environment of a run: the outcome of the k-th search call and the value of
  the k-th reading of \<^verbatim>\<open>time()\<close>, both counted from 0.
\<close>

record env =
  search_result :: "nat \<Rightarrow> outcome"
  clock :: "nat \<Rightarrow> real"

datatype status_emoji = Green | Yellow | Red

text \<open>
  The lines the program prints. A fixed line is \<open>Lit\<close> with its text (without the
  emoji); a formatted line carries the values it formats, unrounded.
\<close>

datatype line =
    Lit string
  | WarmupCompleted real
  | WarmupFailed exn
  | RequestLine nat real status_emoji
  | ResponsePreview nat
  | Average real
  | Minimum real
  | Maximum real
  | ImprovementOver real
  | NeedMore real
  | OriginalRequest nat real
  | OriginalFailed nat exn
  | OptimizedRequest nat real
  | OptimizedFailed nat exn
  | OriginalAverage real
  | OptimizedAverage real
  | Faster real

datatype event =
    Time real
  | Search nat string string
  | Print line
  | Close nat

text \<open>
  The state a run threads: the clients constructed so far, each with the flag
  "closed" (a client's handle is its index), the number of search calls issued,
  the number of clock readings taken, and the trace of events in order.
\<close>

record world =
  clients :: "(AsyncMemoryClient \<times> bool) list"
  searches :: nat
  ticks :: nat
  trace :: "event list"

definition world0 :: world where
  "world0 = \<lparr>clients = [], searches = 0, ticks = 0, trace = []\<rparr>"

type_synonym 'a prog = "world \<Rightarrow> (exn + 'a) \<times> world"

definition ret :: "'a \<Rightarrow> 'a prog" where
  "ret x = (\<lambda>s. (Inr x, s))"

definition raise :: "exn \<Rightarrow> 'a prog" where
  "raise e = (\<lambda>s. (Inl e, s))"

definition bnd :: "'a prog \<Rightarrow> ('a \<Rightarrow> 'b prog) \<Rightarrow> 'b prog" where
  "bnd m f = (\<lambda>s. case m s of (Inl e, s') \<Rightarrow> (Inl e, s') | (Inr x, s') \<Rightarrow> f x s')"

text \<open>\<^verbatim>\<open>try: m  except Exception as e: h e\<close>\<close>

definition try_except :: "'a prog \<Rightarrow> (exn \<Rightarrow> 'a prog) \<Rightarrow> 'a prog" where
  "try_except m h = (\<lambda>s. case m s of (Inl e, s') \<Rightarrow> h e s' | (Inr x, s') \<Rightarrow> (Inr x, s'))"

text \<open>
  \<^verbatim>\<open>try: m  finally: fin\<close>: \<open>fin\<close> runs on both exits of \<open>m\<close>; the result is
  that of \<open>m\<close>, unless \<open>fin\<close> itself raises.
\<close>

definition try_finally :: "'a prog \<Rightarrow> unit prog \<Rightarrow> 'a prog" where
  "try_finally m fin =
     (\<lambda>s. case m s of (r, s') \<Rightarrow>
        (case fin s' of (Inl e, s'') \<Rightarrow> (Inl e, s'') | (Inr _, s'') \<Rightarrow> (r, s'')))"

text \<open>
  \<^verbatim>\<open>for i in range(...)\<close> over a list of indices, with the local variables the
  body updates as the accumulator. An exception in the body ends the loop.
\<close>

fun for_loop :: "nat list \<Rightarrow> (nat \<Rightarrow> 'a \<Rightarrow> 'a prog) \<Rightarrow> 'a \<Rightarrow> 'a prog" where
  "for_loop [] body acc = ret acc"
| "for_loop (i # rest) body acc = bnd (body i acc) (for_loop rest body)"

definition print :: "line \<Rightarrow> unit prog" where
  "print l = (\<lambda>s. (Inr (), s\<lparr>trace := trace s @ [Print l]\<rparr>))"

definition time :: "env \<Rightarrow> real prog" where
  "time ev = (\<lambda>s. let t = clock ev (ticks s)
                  in (Inr t, s\<lparr>ticks := Suc (ticks s), trace := trace s @ [Time t]\<rparr>))"

text \<open>\<^verbatim>\<open>await client.search(query, user_id=user_id)\<close> through the client with handle \<open>h\<close>.\<close>

definition search :: "env \<Rightarrow> nat \<Rightarrow> string \<Rightarrow> string \<Rightarrow> (string list) prog" where
  "search ev h query user_id =
     (\<lambda>s. let s' = s\<lparr>searches := Suc (searches s),
                      trace := trace s @ [Search h query user_id]\<rparr>
          in case search_result ev (searches s) of
               Returns items \<Rightarrow> (Inr items, s')
             | Raises msg \<Rightarrow> (Inl (Exception msg), s'))"

text \<open>Constructing a client allocates it, open; its handle is returned.\<close>

definition new_client :: "AsyncMemoryClient \<Rightarrow> nat prog" where
  "new_client c = (\<lambda>s. (Inr (length (clients s)), s\<lparr>clients := clients s @ [(c, False)]\<rparr>))"

text \<open>\<^verbatim>\<open>await client.async_client.aclose()\<close>\<close>

fun close_at :: "nat \<Rightarrow> ('c \<times> bool) list \<Rightarrow> ('c \<times> bool) list" where
  "close_at h [] = []"
| "close_at 0 ((c, b) # cs) = (c, True) # cs"
| "close_at (Suc h) (x # cs) = x # close_at h cs"

definition aclose :: "nat \<Rightarrow> unit prog" where
  "aclose h = (\<lambda>s. (Inr (), s\<lparr>clients := close_at h (clients s),
                                 trace := trace s @ [Close h]\<rparr>))"

section \<open>Arithmetic that can raise\<close>

definition py_div :: "real \<Rightarrow> real \<Rightarrow> exn + real" where
  "py_div x y = (if y = 0 then Inl ZeroDivisionError else Inr (x / y))"

fun py_min :: "real list \<Rightarrow> exn + real" where
  "py_min [] = Inl ValueError"
| "py_min (x # xs) = Inr (fold (\<lambda>y m. if y < m then y else m) xs x)"

fun py_max :: "real list \<Rightarrow> exn + real" where
  "py_max [] = Inl ValueError"
| "py_max (x # xs) = Inr (fold (\<lambda>y m. if m < y then y else m) xs x)"

definition lift :: "exn + 'a \<Rightarrow> 'a prog" where
  "lift r = (\<lambda>s. (r, s))"

section \<open>The benchmark runner\<close>

text \<open>\<^verbatim>\<open>warm_up_connection(client, query, user_id)\<close>, lines 62-74.\<close>

definition warm_up_connection :: "env \<Rightarrow> nat \<Rightarrow> string \<Rightarrow> string \<Rightarrow> bool prog" where
  "warm_up_connection ev h query user_id =
     try_except
       (bnd (print (Lit ''Warming up connection...'')) (\<lambda>_.
        bnd (time ev) (\<lambda>start.
        bnd (search ev h query user_id) (\<lambda>_.
        bnd (time ev) (\<lambda>finish.
        bnd (print (WarmupCompleted (finish - start))) (\<lambda>_.
        ret True))))))
       (\<lambda>e. bnd (print (WarmupFailed e)) (\<lambda>_.
             bnd (print (Lit ''Continuing with tests anyway...'')) (\<lambda>_.
             ret False)))"

text \<open>The traffic light of line 108.\<close>

definition emoji :: "real \<Rightarrow> status_emoji" where
  "emoji latency =
     (if latency \<le> 15 / 100 then Green else if latency \<le> 21 / 100 then Yellow else Red)"

text \<open>
  The body of the measurement loop of \<^verbatim>\<open>test_ultra_optimized\<close>, lines 102-112,
  with the list \<^verbatim>\<open>latencies\<close> as the accumulator. No handler surrounds the
  request: an exception of \<^verbatim>\<open>search\<close> leaves the body and the loop.
\<close>

definition measure_request ::
  "env \<Rightarrow> nat \<Rightarrow> string \<Rightarrow> string \<Rightarrow> nat \<Rightarrow> real list \<Rightarrow> (real list) prog" where
  "measure_request ev h query user_id i latencies =
     bnd (time ev) (\<lambda>start.
     bnd (search ev h query user_id) (\<lambda>response.
     bnd (time ev) (\<lambda>finish.
     let latency = finish - start in
     bnd (print (RequestLine (i + 1) latency (emoji latency))) (\<lambda>_.
     bnd (if i = 0 then print (ResponsePreview (length response)) else ret ()) (\<lambda>_.
     ret (latencies @ [latency]))))))"

text \<open>
  Lines 116-118: average, minimum and maximum of the samples, in this order.
  \<^verbatim>\<open>sum(latencies) / len(latencies)\<close> raises on the empty list, as do
  \<^verbatim>\<open>min\<close> and \<^verbatim>\<open>max\<close>.
\<close>

definition latency_statistics :: "real list \<Rightarrow> exn + real \<times> real \<times> real" where
  "latency_statistics latencies =
     (case py_div (sum_list latencies) (real (length latencies)) of
        Inl e \<Rightarrow> Inl e
      | Inr avg_latency \<Rightarrow>
          (case py_min latencies of
             Inl e \<Rightarrow> Inl e
           | Inr min_latency \<Rightarrow>
               (case py_max latencies of
                  Inl e \<Rightarrow> Inl e
                | Inr max_latency \<Rightarrow> Inr (avg_latency, min_latency, max_latency))))"

text \<open>Lines 128-139: the verdict against the targets 0.15 s and 0.21 s.\<close>

definition evaluate_results :: "real \<Rightarrow> unit prog" where
  "evaluate_results avg_latency =
     (if avg_latency \<le> 15 / 100 then
        bnd (print (Lit ''SUCCESS! Target achieved - latency is within 0.1-0.15s range'')) (\<lambda>_.
        print (ImprovementOver (((21 / 100 - avg_latency) / (21 / 100)) * 100)))
      else if avg_latency < 21 / 100 then
        bnd (print (Lit ''PARTIAL SUCCESS! Better than original but not quite at target'')) (\<lambda>_.
        bnd (print (ImprovementOver (((21 / 100 - avg_latency) / (21 / 100)) * 100))) (\<lambda>_.
        print (NeedMore (((avg_latency - 15 / 100) / (15 / 100)) * 100))))
      else
        bnd (print (Lit ''No improvement over original 0.21s'')) (\<lambda>_.
        print (Lit ''Consider server-side optimizations or CDN placement'')))"

text \<open>
  Lines 115-139: the statistics block, guarded by \<^verbatim>\<open>if latencies:\<close>. On the
  empty list the block is skipped: nothing is computed and nothing is printed.
\<close>

definition report_statistics :: "real list \<Rightarrow> unit prog" where
  "report_statistics latencies =
     (if latencies \<noteq> [] then
        bnd (lift (latency_statistics latencies)) (\<lambda>(avg_latency, min_latency, max_latency).
        bnd (print (Lit [])) (\<lambda>_.
        bnd (print (Lit ''Latency Statistics:'')) (\<lambda>_.
        bnd (print (Average avg_latency)) (\<lambda>_.
        bnd (print (Minimum min_latency)) (\<lambda>_.
        bnd (print (Maximum max_latency)) (\<lambda>_.
        bnd (print (Lit [])) (\<lambda>_.
        evaluate_results avg_latency)))))))
      else ret ())"

text \<open>
  The literals of the source. The API key the source hard-codes is a credential;
  its value plays no part in any property and is not repeated here.
\<close>

definition the_query :: string where
  "the_query = ''What can I cook for dinner tonight?''"

definition the_user_id :: string where
  "the_user_id = ''alex''"

definition the_api_key :: string where
  "the_api_key = ''m0-(the key of the source)''"

text \<open>\<^verbatim>\<open>test_ultra_optimized()\<close>, lines 77-144.\<close>

definition test_ultra_optimized :: "env \<Rightarrow> unit prog" where
  "test_ultra_optimized ev =
     bnd (print (Lit ''=== Ultra-Optimized Mem0 Client Test ==='')) (\<lambda>_.
     bnd (print (Lit ''Target: 0.1-0.15s latency (down from 0.21s)'')) (\<lambda>_.
     bnd (print (Lit [])) (\<lambda>_.
     bnd (new_client (create_ultra_optimized_client the_api_key)) (\<lambda>client.
     try_finally
       (bnd (warm_up_connection ev client the_query the_user_id) (\<lambda>_.
        bnd (print (Lit [])) (\<lambda>_.
        bnd (print (Lit ''Measuring latency across multiple requests...'')) (\<lambda>_.
        bnd (for_loop [0..<5] (measure_request ev client the_query the_user_id) []) (\<lambda>latencies.
        report_statistics latencies)))))
       (bnd (aclose client) (\<lambda>_.
        print (Lit ''Connection closed'')))))))"

text \<open>
  The body of the two loops of \<^verbatim>\<open>benchmark_original_vs_optimized\<close>, lines
  162-170 and 183-191; they differ in the client and in the two lines they
  print, the parameters \<open>ok_line\<close> and \<open>failed_line\<close>. The request is inside a
  handler: an exception is printed and the loop goes on.
\<close>

definition timed_request ::
  "env \<Rightarrow> nat \<Rightarrow> string \<Rightarrow> string \<Rightarrow> (nat \<Rightarrow> real \<Rightarrow> line) \<Rightarrow> (nat \<Rightarrow> exn \<Rightarrow> line) \<Rightarrow>
   nat \<Rightarrow> real list \<Rightarrow> (real list) prog" where
  "timed_request ev h query user_id ok_line failed_line i latencies =
     bnd (time ev) (\<lambda>start.
     try_except
       (bnd (search ev h query user_id) (\<lambda>_.
        bnd (time ev) (\<lambda>finish.
        let latency = finish - start in
        bnd (print (ok_line (i + 1) latency)) (\<lambda>_.
        ret (latencies @ [latency])))))
       (\<lambda>e. bnd (print (failed_line (i + 1) e)) (\<lambda>_.
             ret latencies)))"

text \<open>Lines 204-208: the verdict of the comparison.\<close>

definition compare_averages :: "real \<Rightarrow> real \<Rightarrow> unit prog" where
  "compare_averages orig_avg opt_avg =
     (if opt_avg < orig_avg then
        bnd (lift (py_div (orig_avg - opt_avg) orig_avg)) (\<lambda>q.
        print (Faster (q * 100)))
      else print (Lit ''No improvement detected''))"

text \<open>Lines 196-208: the comparison, guarded by both lists being non-empty.\<close>

definition compare_results :: "real list \<Rightarrow> real list \<Rightarrow> unit prog" where
  "compare_results original_latencies optimized_latencies =
     (if original_latencies \<noteq> [] \<and> optimized_latencies \<noteq> [] then
        bnd (lift (py_div (sum_list original_latencies)
                          (real (length original_latencies)))) (\<lambda>orig_avg.
        bnd (lift (py_div (sum_list optimized_latencies)
                          (real (length optimized_latencies)))) (\<lambda>opt_avg.
        bnd (print (Lit ''Results Comparison:'')) (\<lambda>_.
        bnd (print (OriginalAverage orig_avg)) (\<lambda>_.
        bnd (print (OptimizedAverage opt_avg)) (\<lambda>_.
        compare_averages orig_avg opt_avg)))))
      else ret ())"

text \<open>\<^verbatim>\<open>benchmark_original_vs_optimized()\<close>, lines 147-208.\<close>

definition benchmark_original_vs_optimized :: "env \<Rightarrow> unit prog" where
  "benchmark_original_vs_optimized ev =
     bnd (print (Lit ''=== Comparison: Original vs Ultra-Optimized ==='')) (\<lambda>_.
     bnd (print (Lit ''Testing Original Implementation...'')) (\<lambda>_.
     bnd (new_client \<lparr>api_key = the_api_key, client = None\<rparr>) (\<lambda>original_client.
     bnd (for_loop [0..<3]
            (timed_request ev original_client the_query the_user_id
               OriginalRequest OriginalFailed) []) (\<lambda>original_latencies.
     bnd (aclose original_client) (\<lambda>_.
     bnd (print (Lit ''Testing Ultra-Optimized Implementation...'')) (\<lambda>_.
     bnd (new_client (create_ultra_optimized_client the_api_key)) (\<lambda>optimized_client.
     bnd (warm_up_connection ev optimized_client the_query the_user_id) (\<lambda>_.
     bnd (for_loop [0..<3]
            (timed_request ev optimized_client the_query the_user_id
               OptimizedRequest OptimizedFailed) []) (\<lambda>optimized_latencies.
     bnd (aclose optimized_client) (\<lambda>_.
     compare_results original_latencies optimized_latencies))))))))))"

section \<open>Vocabulary of the proofs\<close>

text \<open>
  \<open>extends s s'\<close>: the world \<open>s'\<close> is a later world of the same run, with
  the clients as they were in \<open>s\<close>. A program is \<open>steady\<close> when it only
  extends the world it starts in; it \<open>never_raises\<close> when its result is never
  an exception; it is \<open>silent\<close> when it issues no request. \<open>post m s Q\<close>
  says that \<open>Q\<close> holds of the result and of the world that \<open>m\<close> leaves when
  started in \<open>s\<close>.
\<close>

definition extends :: "world \<Rightarrow> world \<Rightarrow> bool" where
  "extends s s' \<longleftrightarrow>
     clients s' = clients s \<and> searches s \<le> searches s' \<and> ticks s \<le> ticks s' \<and>
     prefix (trace s) (trace s')"

definition steady :: "'a prog \<Rightarrow> bool" where
  "steady m \<longleftrightarrow> (\<forall>s. extends s (snd (m s)))"

definition never_raises :: "'a prog \<Rightarrow> bool" where
  "never_raises m \<longleftrightarrow> (\<forall>s. \<exists>x. fst (m s) = Inr x)"

definition silent :: "'a prog \<Rightarrow> bool" where
  "silent m \<longleftrightarrow> (\<forall>s. searches (snd (m s)) = searches s)"

definition post :: "'a prog \<Rightarrow> world \<Rightarrow> (exn + 'a \<Rightarrow> world \<Rightarrow> bool) \<Rightarrow> bool" where
  "post m s Q \<longleftrightarrow> Q (fst (m s)) (snd (m s))"

text \<open>
  The events of a trace that are not printed lines, and the three events of one
  request that returns: the start of its timer, the request, the stop of its
  timer, at the clock readings \<open>t\<close> and \<open>t + 1\<close>.
\<close>

fun printed :: "event \<Rightarrow> bool" where
  "printed (Print l) = True"
| "printed e = False"

definition timing :: "event list \<Rightarrow> event list" where
  "timing t = filter (\<lambda>e. \<not> printed e) t"

definition round_trip :: "env \<Rightarrow> nat \<Rightarrow> string \<Rightarrow> string \<Rightarrow> nat \<Rightarrow> event list" where
  "round_trip ev h query user_id t =
     [Time (clock ev t), Search h query user_id, Time (clock ev (Suc t))]"

section \<open>Statistics of the samples\<close>

lemmas prog_defs = ret_def raise_def bnd_def try_except_def try_finally_def print_def time_def
  search_def new_client_def aclose_def lift_def











text \<open>
  Claim C9. On a single sample \<open>s\<close> the statistics are average = minimum =
  maximum = \<open>s\<close>.
\<close>

theorem statistics_single: "latency_statistics [s] = Inr (s, s, s)"
  by (simp add: latency_statistics_def py_div_def)

theorem statistics_single_witness:
  "latency_statistics [12 / 100] = Inr (12 / 100, 12 / 100, 12 / 100)"
  using statistics_single [of "12 / 100"] by simp

section \<open>The client factory: claim C2\<close>

text \<open>
  Claim C2, as stated, fails: the factory has no configuration parameter. A
  configuration that asks for a pool of 10 connections is not what the client
  gets.
\<close>

theorem factory_ignores_config_counterexample:
  "pool_limit (create_ultra_optimized_client ''key'') \<noteq>
     Some (max_connections \<lparr>max_keepalive_connections = 5, max_connections = 10,
                             keepalive_expiry = 30\<rparr>)"
  by (simp add: pool_limit_def create_ultra_optimized_client_def)

text \<open>
  Claim C2, amended. For every API key the factory returns a client bound to
  that key whose pool limits are the constants of the source: 200 connections,
  50 of them kept alive, for 60 seconds.
\<close>

theorem factory_fixed_limits:
  "pool_limit (create_ultra_optimized_client key) = Some 200 \<and>
   api_key (create_ultra_optimized_client key) = key \<and>
   map_option limits (client (create_ultra_optimized_client key)) =
     Some \<lparr>max_keepalive_connections = 50, max_connections = 200, keepalive_expiry = 60\<rparr>"
  by (simp add: pool_limit_def create_ultra_optimized_client_def)

theorem factory_fixed_limits_witness:
  "pool_limit (create_ultra_optimized_client ''key'') = Some 200"
  using factory_fixed_limits [of "''key''"] by simp

section \<open>The comparison: claim C6\<close>

text \<open>
  Claim C6. For averages of elapsed times (the optimized one not negative), the
  comparison prints the improvement line exactly when the optimized average is
  below the original one, with the percentage
  \<open>(orig_avg - opt_avg) / orig_avg * 100\<close>, and otherwise the line "No
  improvement detected"; when the optimized average is half a positive original
  average the percentage is 50.
\<close>

theorem compare_verdict:
  assumes "0 \<le> opt_avg"
  shows "compare_averages orig_avg opt_avg s =
           (Inr (), s\<lparr>trace := trace s @
              [Print (if opt_avg < orig_avg
                      then Faster ((orig_avg - opt_avg) / orig_avg * 100)
                      else Lit ''No improvement detected'')]\<rparr>) \<and>
         (0 < orig_avg \<and> opt_avg = orig_avg / 2 \<longrightarrow>
            compare_averages orig_avg opt_avg s =
              (Inr (), s\<lparr>trace := trace s @ [Print (Faster 50)]\<rparr>))"
  using assms by (auto simp: compare_averages_def py_div_def prog_defs)

theorem compare_verdict_witness:
  "compare_averages (2 / 10) (1 / 10) world0 =
     (Inr (), world0\<lparr>trace := trace world0 @ [Print (Faster 50)]\<rparr>)"
  using compare_verdict [of "1 / 10" "2 / 10" world0] by simp

section \<open>The warm-up: claim C10\<close>

text \<open>
  Claim C10. \<^verbatim>\<open>warm_up_connection\<close> never raises: it returns \<open>True\<close> when
  its search call returns and \<open>False\<close> when that call raises.
\<close>

theorem warm_up_returns:
  "fst (warm_up_connection ev h query user_id s) =
     Inr (\<exists>items. search_result ev (searches s) = Returns items)"
  by (cases "search_result ev (searches s)")
     (simp_all add: warm_up_connection_def prog_defs Let_def)

theorem warm_up_returns_witness:
  "fst (warm_up_connection \<lparr>search_result = (\<lambda>k. Raises ''timeout''), clock = (\<lambda>k. real k)\<rparr>
          0 ''q'' ''u'' world0) = Inr False \<and>
   fst (warm_up_connection \<lparr>search_result = (\<lambda>k. Returns []), clock = (\<lambda>k. real k)\<rparr>
          0 ''q'' ''u'' world0) = Inr True"
  using
    warm_up_returns [of "\<lparr>search_result = (\<lambda>k. Raises ''timeout''), clock = (\<lambda>k. real k)\<rparr>"
      0 "''q''" "''u''" world0]
    warm_up_returns [of "\<lparr>search_result = (\<lambda>k. Returns []), clock = (\<lambda>k. real k)\<rparr>"
      0 "''q''" "''u''" world0]
  by simp

section \<open>Invariants of the runner\<close>

lemma extends_refl: "extends s s"
  by (simp add: extends_def)

lemma extends_trans: "extends s s' \<Longrightarrow> extends s' s'' \<Longrightarrow> extends s s''"
  by (auto simp: extends_def)

lemma steadyD: "steady m \<Longrightarrow> m s = (r, s') \<Longrightarrow> extends s s'"
  by (metis snd_conv steady_def)

lemma steady_ret: "steady (ret x)"
  by (simp add: steady_def ret_def extends_refl)

lemma steady_raise: "steady (raise e)"
  by (simp add: steady_def raise_def extends_refl)

lemma steady_lift: "steady (lift r)"
  by (simp add: steady_def lift_def extends_refl)

lemma steady_print: "steady (print l)"
  by (simp add: steady_def print_def extends_def)

lemma steady_time: "steady (time ev)"
  by (simp add: steady_def time_def extends_def Let_def)

lemma steady_search: "steady (search ev h query user_id)"
  by (simp add: steady_def search_def extends_def Let_def split: outcome.split)

lemma steady_bnd: "steady m \<Longrightarrow> (\<And>x. steady (f x)) \<Longrightarrow> steady (bnd m f)"
  unfolding steady_def bnd_def
proof (intro allI)
  fix s
  assume m: "\<forall>s. extends s (snd (m s))" and f: "\<And>x. \<forall>s. extends s (snd (f x s))"
  obtain r s' where ms: "m s = (r, s')" by (cases "m s")
  have e1: "extends s s'" using m ms by (metis snd_conv)
  show "extends s (snd (case m s of (Inl e, s') \<Rightarrow> (Inl e, s') | (Inr x, s') \<Rightarrow> f x s'))"
  proof (cases r)
    case (Inl e)
    then show ?thesis using ms e1 by simp
  next
    case (Inr x)
    then show ?thesis using ms e1 f [of x] by (auto intro: extends_trans)
  qed
qed

lemma steady_try_except: "steady m \<Longrightarrow> (\<And>e. steady (h e)) \<Longrightarrow> steady (try_except m h)"
  unfolding steady_def try_except_def
proof (intro allI)
  fix s
  assume m: "\<forall>s. extends s (snd (m s))" and h: "\<And>e. \<forall>s. extends s (snd (h e s))"
  obtain r s' where ms: "m s = (r, s')" by (cases "m s")
  have e1: "extends s s'" using m ms by (metis snd_conv)
  show "extends s (snd (case m s of (Inl e, s') \<Rightarrow> h e s' | (Inr x, s') \<Rightarrow> (Inr x, s')))"
  proof (cases r)
    case (Inl e)
    then show ?thesis using ms e1 h [of e] by (auto intro: extends_trans)
  next
    case (Inr x)
    then show ?thesis using ms e1 by simp
  qed
qed

lemma steady_if: "steady m \<Longrightarrow> steady n \<Longrightarrow> steady (if b then m else n)"
  by simp

lemma steady_for_loop: "(\<And>i acc. steady (body i acc)) \<Longrightarrow> steady (for_loop is body acc)"
  by (induction "is" arbitrary: acc) (auto intro: steady_ret steady_bnd)

lemmas steady_intros = steady_ret steady_raise steady_lift steady_print steady_time steady_search
  steady_bnd steady_try_except steady_if steady_for_loop

lemma steady_warm_up: "steady (warm_up_connection ev h query user_id)"
  unfolding warm_up_connection_def by (intro steady_intros)

lemma steady_measure_request: "steady (measure_request ev h query user_id i latencies)"
  unfolding measure_request_def Let_def by (intro steady_intros)

lemma steady_timed_request:
  "steady (timed_request ev h query user_id ok_line failed_line i latencies)"
  unfolding timed_request_def Let_def by (intro steady_intros)

lemma steady_evaluate_results: "steady (evaluate_results avg)"
  unfolding evaluate_results_def by (intro steady_intros)

lemma steady_report_statistics: "steady (report_statistics latencies)"
  unfolding report_statistics_def split_def by (intro steady_intros steady_evaluate_results)

lemma steady_compare_averages: "steady (compare_averages a b)"
  unfolding compare_averages_def by (intro steady_intros)

lemma steady_compare_results: "steady (compare_results xs ys)"
  unfolding compare_results_def by (intro steady_intros steady_compare_averages)

lemma never_raises_ret: "never_raises (ret x)"
  by (simp add: never_raises_def ret_def)

lemma never_raises_print: "never_raises (print l)"
  by (simp add: never_raises_def print_def)

lemma never_raises_time: "never_raises (time ev)"
  by (simp add: never_raises_def time_def Let_def)

lemma never_raises_bnd: "never_raises m \<Longrightarrow> (\<And>x. never_raises (f x)) \<Longrightarrow> never_raises (bnd m f)"
  unfolding never_raises_def bnd_def
proof (intro allI)
  fix s
  assume m: "\<forall>s. \<exists>x. fst (m s) = Inr x" and f: "\<And>x. \<forall>s. \<exists>y. fst (f x s) = Inr y"
  obtain x where "fst (m s) = Inr x" using m by blast
  then obtain s' where "m s = (Inr x, s')" by (cases "m s") simp
  then show "\<exists>y. fst (case m s of (Inl e, s') \<Rightarrow> (Inl e, s') | (Inr x, s') \<Rightarrow> f x s') = Inr y"
    using f [of x] by simp
qed

lemma never_raises_try_except: "(\<And>e. never_raises (h e)) \<Longrightarrow> never_raises (try_except m h)"
  unfolding never_raises_def try_except_def
proof (intro allI)
  fix s
  assume h: "\<And>e. \<forall>s. \<exists>y. fst (h e s) = Inr y"
  obtain r s' where ms: "m s = (r, s')" by (cases "m s")
  show "\<exists>y. fst (case m s of (Inl e, s') \<Rightarrow> h e s' | (Inr x, s') \<Rightarrow> (Inr x, s')) = Inr y"
    using ms h by (cases r) simp_all
qed

lemma never_raises_for_loop: "(\<And>i acc. never_raises (body i acc)) \<Longrightarrow> never_raises (for_loop is body acc)"
  by (induction "is" arbitrary: acc) (auto intro: never_raises_ret never_raises_bnd)

lemmas never_raises_intros = never_raises_ret never_raises_print never_raises_time never_raises_bnd never_raises_try_except never_raises_for_loop

lemma never_raises_warm_up: "never_raises (warm_up_connection ev h query user_id)"
  unfolding warm_up_connection_def by (intro never_raises_intros)

lemma never_raises_timed_request:
  "never_raises (timed_request ev h query user_id ok_line failed_line i latencies)"
  unfolding timed_request_def by (intro never_raises_intros)

lemma silent_ret: "silent (ret x)"
  by (simp add: silent_def ret_def)

lemma silent_lift: "silent (lift r)"
  by (simp add: silent_def lift_def)

lemma silent_print: "silent (print l)"
  by (simp add: silent_def print_def)

lemma silent_bnd: "silent m \<Longrightarrow> (\<And>x. silent (f x)) \<Longrightarrow> silent (bnd m f)"
  unfolding silent_def bnd_def
proof (intro allI)
  fix s
  assume m: "\<forall>s. searches (snd (m s)) = searches s"
    and f: "\<And>x. \<forall>s. searches (snd (f x s)) = searches s"
  obtain r s' where ms: "m s = (r, s')" by (cases "m s")
  have "searches s' = searches s" using m ms by (metis snd_conv)
  then show "searches (snd (case m s of (Inl e, s') \<Rightarrow> (Inl e, s') | (Inr x, s') \<Rightarrow> f x s')) =
      searches s"
    using ms f by (cases r) simp_all
qed

lemma silent_if: "silent m \<Longrightarrow> silent n \<Longrightarrow> silent (if b then m else n)"
  by simp

lemmas silent_intros = silent_ret silent_lift silent_print silent_bnd silent_if

lemma silent_compare_results: "silent (compare_results xs ys)"
  unfolding compare_results_def compare_averages_def by (intro silent_intros)

lemma post_bnd:
  "post m s (\<lambda>r s'. case r of Inl e \<Rightarrow> Q (Inl e) s' | Inr x \<Rightarrow> post (f x) s' Q) \<Longrightarrow>
   post (bnd m f) s Q"
  by (cases "m s") (auto simp: post_def bnd_def split: sum.splits)

lemma post_try_finally:
  "post m s (\<lambda>r s'. post fin s' (\<lambda>r2 s''. case r2 of Inl e \<Rightarrow> Q (Inl e) s'' | Inr u \<Rightarrow> Q r s'')) \<Longrightarrow>
   post (try_finally m fin) s Q"
  by (cases "m s") (auto simp: post_def try_finally_def split: sum.splits prod.splits)

lemma post_print: "Q (Inr ()) (s\<lparr>trace := trace s @ [Print l]\<rparr>) \<Longrightarrow> post (print l) s Q"
  by (simp add: post_def print_def)

lemma post_new_client:
  "Q (Inr (length (clients s))) (s\<lparr>clients := clients s @ [(c, False)]\<rparr>) \<Longrightarrow>
   post (new_client c) s Q"
  by (simp add: post_def new_client_def)

lemma post_aclose:
  "Q (Inr ()) (s\<lparr>clients := close_at h (clients s), trace := trace s @ [Close h]\<rparr>) \<Longrightarrow>
   post (aclose h) s Q"
  by (simp add: post_def aclose_def)

lemma post_steady: "steady m \<Longrightarrow> (\<And>r s'. extends s s' \<Longrightarrow> Q r s') \<Longrightarrow> post m s Q"
  by (simp add: post_def steady_def)

lemma post_steady_never_raises:
  "steady m \<Longrightarrow> never_raises m \<Longrightarrow> (\<And>x s'. extends s s' \<Longrightarrow> Q (Inr x) s') \<Longrightarrow> post m s Q"
  by (metis post_def steady_def never_raises_def)

lemma post_trace:
  assumes "\<exists>rest. trace (snd (m s)) = trace s @ known @ rest"
    and "\<And>r s' rest. trace s' = trace s @ known @ rest \<Longrightarrow> Q r s'"
  shows "post m s Q"
  using assms by (auto simp: post_def)

lemma post_eq: "m s = (r, s') \<Longrightarrow> Q r s' \<Longrightarrow> post m s Q"
  by (simp add: post_def)

lemma post_steady_trace:
  assumes "steady m" and "\<And>r s' z. trace s' = trace s @ z \<Longrightarrow> Q r s'"
  shows "post m s Q"
  using assms by (auto simp: post_def steady_def extends_def prefix_def)

section \<open>Clients are closed: claim C3\<close>

lemmas run_defs = warm_up_connection_def measure_request_def timed_request_def
  report_statistics_def compare_results_def test_ultra_optimized_def
  benchmark_original_vs_optimized_def world0_def

lemma close_at_append: "close_at (length cs) (cs @ (c, b) # rest) = cs @ (c, True) # rest"
  by (induction cs) auto

lemma clients_test_ultra:
  "post (test_ultra_optimized ev) s
     (\<lambda>r s'. clients s' = clients s @ [(create_ultra_optimized_client the_api_key, True)])"
  unfolding test_ultra_optimized_def
  apply (rule post_bnd, rule post_print, simp)
  apply (rule post_bnd, rule post_print, simp)
  apply (rule post_bnd, rule post_print, simp)
  apply (rule post_bnd, rule post_new_client, simp)
  apply (rule post_try_finally)
  apply (rule post_steady)
   apply (intro steady_intros steady_warm_up steady_measure_request steady_report_statistics)
  apply (rule post_bnd, rule post_aclose, simp)
  apply (rule post_print)
  apply (simp add: extends_def close_at_append [where rest = "[]", simplified])
  done


lemma clients_benchmark:
  "post (benchmark_original_vs_optimized ev) s
     (\<lambda>r s'. clients s' = clients s @
        [(\<lparr>api_key = the_api_key, client = None\<rparr>, True),
         (create_ultra_optimized_client the_api_key, True)])"
  unfolding benchmark_original_vs_optimized_def
  apply (rule post_bnd, rule post_print, simp)
  apply (rule post_bnd, rule post_print, simp)
  apply (rule post_bnd, rule post_new_client, simp)
  apply (rule post_bnd, rule post_steady_never_raises)
    apply (intro steady_intros steady_timed_request)
   apply (intro never_raises_intros never_raises_timed_request)
  apply (simp add: extends_def)
  apply (rule post_bnd, rule post_aclose, simp)
  apply (rule post_bnd, rule post_print, simp)
  apply (rule post_bnd, rule post_new_client, simp)
  apply (rule post_bnd, rule post_steady_never_raises)
    apply (rule steady_warm_up)
   apply (rule never_raises_warm_up)
  apply (simp add: extends_def)
  apply (rule post_bnd, rule post_steady_never_raises)
    apply (intro steady_intros steady_timed_request)
   apply (intro never_raises_intros never_raises_timed_request)
  apply (simp add: extends_def)
  apply (rule post_bnd, rule post_aclose, simp)
  apply (rule post_steady)
   apply (rule steady_compare_results)
  apply (simp add: extends_def close_at_append [where rest = "[]", simplified]
      close_at_append [where cs = "cs @ [x]" for cs x, simplified])
  done

text \<open>
  Claim C3. Whatever the requests do, at the end of a run of
  \<^verbatim>\<open>test_ultra_optimized\<close> the one client it constructed is closed, and at the
  end of a run of \<^verbatim>\<open>benchmark_original_vs_optimized\<close> both clients it
  constructed are closed; this holds for the runs that end in an exception too.
\<close>

theorem clients_closed_on_every_exit:
  "clients (snd (test_ultra_optimized ev s)) =
     clients s @ [(create_ultra_optimized_client the_api_key, True)] \<and>
   clients (snd (benchmark_original_vs_optimized ev s)) =
     clients s @ [(\<lparr>api_key = the_api_key, client = None\<rparr>, True),
                  (create_ultra_optimized_client the_api_key, True)]"
  using clients_test_ultra [of ev s] clients_benchmark [of ev s]
  by (simp add: post_def)

theorem clients_closed_on_every_exit_witness:
  "fst (test_ultra_optimized
     \<lparr>search_result = (\<lambda>k. if k = 3 then Raises ''reset'' else Returns []),
      clock = (\<lambda>k. real k / 10)\<rparr> world0) = Inl (Exception ''reset'') \<and>
   map snd (clients (snd (test_ultra_optimized
     \<lparr>search_result = (\<lambda>k. if k = 3 then Raises ''reset'' else Returns []),
      clock = (\<lambda>k. real k / 10)\<rparr> world0))) = [True] \<and>
   map snd (clients (snd (benchmark_original_vs_optimized
     \<lparr>search_result = (\<lambda>k. if k = 3 then Raises ''reset'' else Returns []),
      clock = (\<lambda>k. real k / 10)\<rparr> world0))) = [True, True]"
  using clients_closed_on_every_exit
    [of "\<lparr>search_result = (\<lambda>k. if k = 3 then Raises ''reset'' else Returns []),
          clock = (\<lambda>k. real k / 10)\<rparr>" world0]
  by (simp add: run_defs prog_defs upt_rec Let_def emoji_def)

section \<open>A failed warm-up: claim C4\<close>

lemma warm_up_raises:
  assumes "search_result ev (searches s) = Raises msg"
  shows "warm_up_connection ev h query user_id s =
           (Inr False,
            s\<lparr>searches := Suc (searches s), ticks := Suc (ticks s),
              trace := trace s @
                [Print (Lit ''Warming up connection...''), Time (clock ev (ticks s)),
                 Search h query user_id, Print (WarmupFailed (Exception msg)),
                 Print (Lit ''Continuing with tests anyway...'')]\<rparr>)"
  using assms by (simp add: warm_up_connection_def prog_defs Let_def)

lemma warm_up_returns_items:
  assumes "search_result ev (searches s) = Returns items"
  shows "warm_up_connection ev h query user_id s =
           (Inr True,
            s\<lparr>searches := Suc (searches s), ticks := Suc (Suc (ticks s)),
              trace := trace s @
                [Print (Lit ''Warming up connection...''), Time (clock ev (ticks s)),
                 Search h query user_id, Time (clock ev (Suc (ticks s))),
                 Print (WarmupCompleted (clock ev (Suc (ticks s)) - clock ev (ticks s)))]\<rparr>)"
  using assms by (simp add: warm_up_connection_def prog_defs Let_def)

lemma measure_request_issues:
  "\<exists>rest. trace (snd (measure_request ev h query user_id i latencies s)) =
     trace s @ [Time (clock ev (ticks s)), Search h query user_id] @ rest"
  by (cases "search_result ev (searches s)")
     (simp_all add: measure_request_def prog_defs Let_def)

lemma timed_request_issues:
  "\<exists>rest. trace (snd (timed_request ev h query user_id ok_line failed_line i latencies s)) =
     trace s @ [Time (clock ev (ticks s)), Search h query user_id] @ rest"
  by (cases "search_result ev (searches s)")
     (simp_all add: timed_request_def prog_defs Let_def)

lemma timed_request_searches:
  "searches (snd (timed_request ev h query user_id ok_line failed_line i latencies s)) =
     Suc (searches s)"
  by (cases "search_result ev (searches s)")
     (simp_all add: timed_request_def prog_defs Let_def)

lemma bnd_never_raises_snd:
  assumes "never_raises m"
  shows "\<exists>x. m s = (Inr x, snd (m s)) \<and> bnd m f s = f x (snd (m s))"
proof -
  obtain x where "fst (m s) = Inr x" using assms unfolding never_raises_def by blast
  then have "m s = (Inr x, snd (m s))" by (cases "m s") simp
  then show ?thesis by (auto simp: bnd_def split: prod.splits)
qed

lemma for_loop_timed_searches:
  "searches (snd (for_loop is (timed_request ev h query user_id ok_line failed_line) acc s)) =
     searches s + length is"
proof (induction "is" arbitrary: acc s)
  case Nil
  then show ?case by (simp add: ret_def)
next
  case (Cons i rest)
  let ?body = "timed_request ev h query user_id ok_line failed_line"
  obtain x where step: "bnd (?body i acc) (for_loop rest ?body) s =
      for_loop rest ?body x (snd (?body i acc s))"
    using bnd_never_raises_snd [OF never_raises_timed_request] by blast
  show ?case
    by (simp add: step Cons.IH timed_request_searches)
qed

lemma for_loop_steady_from:
  assumes body: "\<And>i acc. steady (body i acc)"
    and first: "\<And>s. \<exists>rest. trace (snd (body i acc s)) = trace s @ known s @ rest"
  shows "\<exists>rest. trace (snd (for_loop (i # is) body acc s)) = trace s @ known s @ rest"
proof -
  obtain r s1 where b: "body i acc s = (r, s1)" by (cases "body i acc s")
  obtain rest1 where t1: "trace s1 = trace s @ known s @ rest1"
    using first [of s] b by auto
  show ?thesis
  proof (cases r)
    case (Inl e)
    then show ?thesis using b t1 by (simp add: bnd_def)
  next
    case (Inr x)
    have "extends s1 (snd (for_loop is body x s1))"
      using steady_for_loop [OF body] by (simp add: steady_def)
    then obtain z where "trace (snd (for_loop is body x s1)) = trace s1 @ z"
      by (auto simp: extends_def prefix_def)
    then show ?thesis using b t1 Inr by (simp add: bnd_def)
  qed
qed

lemma upt_5: "[0..<5] = 0 # [1..<5]"
  by (simp add: upt_rec)

lemma upt_3: "[0..<3] = 0 # [1..<3]"
  by (simp add: upt_rec)

lemma measure_loop_issues:
  "\<exists>rest. trace (snd (for_loop (i # is) (measure_request ev h query user_id) acc s)) =
     trace s @ [Time (clock ev (ticks s)), Search h query user_id] @ rest"
  by (rule for_loop_steady_from
        [where known = "\<lambda>s. [Time (clock ev (ticks s)), Search h query user_id]"])
     (rule steady_measure_request measure_request_issues)+

lemma timed_loop_issues:
  "\<exists>rest. trace (snd (for_loop (i # is)
       (timed_request ev h query user_id ok_line failed_line) acc s)) =
     trace s @ [Time (clock ev (ticks s)), Search h query user_id] @ rest"
  by (rule for_loop_steady_from
        [where known = "\<lambda>s. [Time (clock ev (ticks s)), Search h query user_id]"])
     (rule steady_timed_request timed_request_issues)+

lemma test_ultra_after_failed_warm_up:
  assumes "search_result ev 0 = Raises msg"
  shows "post (test_ultra_optimized ev) world0
     (\<lambda>r s'. \<exists>rest. trace s' =
        [Print (Lit ''=== Ultra-Optimized Mem0 Client Test ===''),
         Print (Lit ''Target: 0.1-0.15s latency (down from 0.21s)''),
         Print (Lit []),
         Print (Lit ''Warming up connection...''), Time (clock ev 0),
         Search 0 the_query the_user_id, Print (WarmupFailed (Exception msg)),
         Print (Lit ''Continuing with tests anyway...''),
         Print (Lit []),
         Print (Lit ''Measuring latency across multiple requests...''),
         Time (clock ev 1), Search 0 the_query the_user_id] @ rest)"
  unfolding test_ultra_optimized_def
  apply (rule post_bnd, rule post_print, simp)
  apply (rule post_bnd, rule post_print, simp)
  apply (rule post_bnd, rule post_print, simp)
  apply (rule post_bnd, rule post_new_client, simp)
  apply (rule post_try_finally)
  apply (rule post_bnd, rule post_eq, rule warm_up_raises [where msg = msg])
   apply (simp add: world0_def assms)
  apply simp
  apply (rule post_bnd, rule post_print, simp)
  apply (rule post_bnd, rule post_print, simp)
  apply (rule post_bnd, subst upt_5, rule post_trace, rule measure_loop_issues)
  apply (simp split: sum.split)
  apply (intro conjI allI impI)
   apply (rule post_bnd, rule post_aclose, simp, rule post_print, simp add: world0_def)
  apply (rule post_steady_trace, rule steady_report_statistics)
  apply (rule post_bnd, rule post_aclose, simp, rule post_print, simp add: world0_def)
  done

lemma post_timed_loop:
  assumes "\<And>x s' rest. extends s s' \<Longrightarrow> searches s' = searches s + length (i # is) \<Longrightarrow>
      trace s' = trace s @ [Time (clock ev (ticks s)), Search h query user_id] @ rest \<Longrightarrow>
      Q (Inr x) s'"
  shows "post (for_loop (i # is) (timed_request ev h query user_id ok_line failed_line) acc) s Q"
proof -
  let ?m = "for_loop (i # is) (timed_request ev h query user_id ok_line failed_line) acc"
  have "never_raises ?m" by (intro never_raises_intros never_raises_timed_request)
  then obtain x where x: "fst (?m s) = Inr x" unfolding never_raises_def by blast
  have "steady ?m" by (intro steady_intros steady_timed_request)
  then have e: "extends s (snd (?m s))" by (simp add: steady_def)
  have n: "searches (snd (?m s)) = searches s + length (i # is)"
    by (rule for_loop_timed_searches)
  obtain rest where
    t: "trace (snd (?m s)) = trace s @ [Time (clock ev (ticks s)), Search h query user_id] @ rest"
    using timed_loop_issues by blast
  show ?thesis
    unfolding post_def x by (rule assms [OF e n t])
qed

lemma post_steady_silent:
  assumes "steady m" and "silent m"
    and "\<And>r s' z. trace s' = trace s @ z \<Longrightarrow> searches s' = searches s \<Longrightarrow> Q r s'"
  shows "post m s Q"
proof -
  have "extends s (snd (m s))" using assms(1) by (simp add: steady_def)
  then obtain z where "trace (snd (m s)) = trace s @ z"
    by (auto simp: extends_def prefix_def)
  moreover have "searches (snd (m s)) = searches s" using assms(2) by (simp add: silent_def)
  ultimately show ?thesis unfolding post_def by (rule assms(3))
qed

lemma benchmark_after_failed_warm_up:
  assumes "search_result ev 3 = Raises msg"
  shows "post (benchmark_original_vs_optimized ev) world0
     (\<lambda>r s'. searches s' = 7 \<and> (\<exists>before t t' rest. trace s' =
        before @
        [Print (Lit ''Warming up connection...''), Time t,
         Search 1 the_query the_user_id, Print (WarmupFailed (Exception msg)),
         Print (Lit ''Continuing with tests anyway...''),
         Time t', Search 1 the_query the_user_id] @ rest))"
  unfolding benchmark_original_vs_optimized_def
  apply (rule post_bnd, rule post_print, simp)
  apply (rule post_bnd, rule post_print, simp)
  apply (rule post_bnd, rule post_new_client, simp)
  apply (rule post_bnd, subst upt_3, rule post_timed_loop, simp)
  apply (rule post_bnd, rule post_aclose, simp)
  apply (rule post_bnd, rule post_print, simp)
  apply (rule post_bnd, rule post_new_client, simp)
  apply (rule post_bnd, rule post_eq, rule warm_up_raises [where msg = msg])
   apply (simp add: world0_def assms)
  apply simp
  apply (rule post_bnd, subst upt_3, rule post_timed_loop, simp)
  apply (rule post_bnd, rule post_aclose, simp)
  apply (rule post_steady_silent, rule steady_compare_results, rule silent_compare_results)
  apply (simp add: world0_def extends_def)
  subgoal for s' rest s'a resta s'b z
    apply (rule exI [where x = "Print (Lit ''=== Comparison: Original vs Ultra-Optimized ==='') #
        Print (Lit ''Testing Original Implementation...'') # Time (clock ev 0) #
        Search 0 the_query the_user_id # rest @
        [Close 0, Print (Lit ''Testing Ultra-Optimized Implementation...'')]"])
    apply (rule exI [where x = "clock ev (ticks s')"])
    apply (rule exI [where x = "clock ev (Suc (ticks s'))"])
    apply (rule exI [where x = "resta @ Close (Suc 0) # z"])
    apply simp
    done
  done

text \<open>
  Claim C4. When the search call of the warm-up raises, \<^verbatim>\<open>warm_up_connection\<close>
  returns \<open>False\<close> with the failure printed; the run of
  \<^verbatim>\<open>test_ultra_optimized\<close> goes on to the measurement and issues its first
  measured request, and the run of \<^verbatim>\<open>benchmark_original_vs_optimized\<close> issues
  the first measured request of the optimized client right after the failure
  is printed and ends with all seven requests issued.
\<close>

theorem warm_up_failure_not_fatal:
  "(search_result ev (searches s) = Raises msg \<longrightarrow>
      warm_up_connection ev h query user_id s =
        (Inr False,
         s\<lparr>searches := Suc (searches s), ticks := Suc (ticks s),
           trace := trace s @
             [Print (Lit ''Warming up connection...''), Time (clock ev (ticks s)),
              Search h query user_id, Print (WarmupFailed (Exception msg)),
              Print (Lit ''Continuing with tests anyway...'')]\<rparr>)) \<and>
   (search_result ev 0 = Raises msg \<longrightarrow>
      (\<exists>rest. trace (snd (test_ultra_optimized ev world0)) =
         [Print (Lit ''=== Ultra-Optimized Mem0 Client Test ===''),
          Print (Lit ''Target: 0.1-0.15s latency (down from 0.21s)''),
          Print (Lit []),
          Print (Lit ''Warming up connection...''), Time (clock ev 0),
          Search 0 the_query the_user_id, Print (WarmupFailed (Exception msg)),
          Print (Lit ''Continuing with tests anyway...''),
          Print (Lit []),
          Print (Lit ''Measuring latency across multiple requests...''),
          Time (clock ev 1), Search 0 the_query the_user_id] @ rest)) \<and>
   (search_result ev 3 = Raises msg \<longrightarrow>
      searches (snd (benchmark_original_vs_optimized ev world0)) = 7 \<and>
      (\<exists>before t t' rest. trace (snd (benchmark_original_vs_optimized ev world0)) =
         before @
         [Print (Lit ''Warming up connection...''), Time t,
          Search 1 the_query the_user_id, Print (WarmupFailed (Exception msg)),
          Print (Lit ''Continuing with tests anyway...''),
          Time t', Search 1 the_query the_user_id] @ rest))"
proof (intro conjI impI)
  assume "search_result ev (searches s) = Raises msg"
  then show "warm_up_connection ev h query user_id s =
        (Inr False,
         s\<lparr>searches := Suc (searches s), ticks := Suc (ticks s),
           trace := trace s @
             [Print (Lit ''Warming up connection...''), Time (clock ev (ticks s)),
              Search h query user_id, Print (WarmupFailed (Exception msg)),
              Print (Lit ''Continuing with tests anyway...'')]\<rparr>)"
    by (rule warm_up_raises)
next
  assume "search_result ev 0 = Raises msg"
  from test_ultra_after_failed_warm_up [OF this]
  show "\<exists>rest. trace (snd (test_ultra_optimized ev world0)) =
         [Print (Lit ''=== Ultra-Optimized Mem0 Client Test ===''),
          Print (Lit ''Target: 0.1-0.15s latency (down from 0.21s)''),
          Print (Lit []),
          Print (Lit ''Warming up connection...''), Time (clock ev 0),
          Search 0 the_query the_user_id, Print (WarmupFailed (Exception msg)),
          Print (Lit ''Continuing with tests anyway...''),
          Print (Lit []),
          Print (Lit ''Measuring latency across multiple requests...''),
          Time (clock ev 1), Search 0 the_query the_user_id] @ rest"
    by (simp add: post_def)
next
  assume a: "search_result ev 3 = Raises msg"
  from benchmark_after_failed_warm_up [OF a]
  show "searches (snd (benchmark_original_vs_optimized ev world0)) = 7"
    by (simp add: post_def)
  from benchmark_after_failed_warm_up [OF a]
  show "\<exists>before t t' rest. trace (snd (benchmark_original_vs_optimized ev world0)) =
         before @
         [Print (Lit ''Warming up connection...''), Time t,
          Search 1 the_query the_user_id, Print (WarmupFailed (Exception msg)),
          Print (Lit ''Continuing with tests anyway...''),
          Time t', Search 1 the_query the_user_id] @ rest"
    by (simp add: post_def)
qed

theorem warm_up_failure_not_fatal_witness:
  "fst (warm_up_connection
     \<lparr>search_result = (\<lambda>k. if k = 0 then Raises ''refused'' else Returns []),
      clock = (\<lambda>k. real k / 10)\<rparr> 0 the_query the_user_id world0) = Inr False \<and>
   searches (snd (test_ultra_optimized
     \<lparr>search_result = (\<lambda>k. if k = 0 then Raises ''refused'' else Returns []),
      clock = (\<lambda>k. real k / 10)\<rparr> world0)) = 6 \<and>
   searches (snd (benchmark_original_vs_optimized
     \<lparr>search_result = (\<lambda>k. if k = 3 then Raises ''refused'' else Returns []),
      clock = (\<lambda>k. real k / 10)\<rparr> world0)) = 7"
  using
    warm_up_failure_not_fatal
      [of "\<lparr>search_result = (\<lambda>k. if k = 0 then Raises ''refused'' else Returns []),
            clock = (\<lambda>k. real k / 10)\<rparr>" world0 "''refused''" 0 the_query the_user_id]
    warm_up_failure_not_fatal
      [of "\<lparr>search_result = (\<lambda>k. if k = 3 then Raises ''refused'' else Returns []),
            clock = (\<lambda>k. real k / 10)\<rparr>" world0 "''refused''" 0 the_query the_user_id]
  by (simp add: run_defs prog_defs upt_rec Let_def emoji_def latency_statistics_def
      py_div_def evaluate_results_def compare_averages_def)

section \<open>No samples, no division: claim C5\<close>

lemma benchmark_all_measured_fail:
  assumes "\<And>k. k \<noteq> 3 \<Longrightarrow> search_result ev k = Raises (msg k)"
  shows "fst (benchmark_original_vs_optimized ev world0) = Inr ()"
proof -
  have f: "search_result ev 0 = Raises (msg 0)"
    "search_result ev (Suc 0) = Raises (msg (Suc 0))"
    "search_result ev (Suc (Suc 0)) = Raises (msg (Suc (Suc 0)))"
    "search_result ev (Suc (Suc (Suc (Suc 0)))) = Raises (msg (Suc (Suc (Suc (Suc 0)))))"
    "search_result ev (Suc (Suc (Suc (Suc (Suc 0))))) =
       Raises (msg (Suc (Suc (Suc (Suc (Suc 0))))))"
    "search_result ev (Suc (Suc (Suc (Suc (Suc (Suc 0)))))) =
       Raises (msg (Suc (Suc (Suc (Suc (Suc (Suc 0)))))))"
    using assms by simp_all
  show ?thesis
    by (cases "search_result ev (Suc (Suc (Suc 0)))")
       (simp_all add: run_defs prog_defs upt_rec Let_def f)
qed

lemma test_ultra_first_measured_fails:
  assumes "search_result ev (Suc 0) = Raises m"
  shows "fst (test_ultra_optimized ev world0) = Inl (Exception m)"
  using assms
  by (cases "search_result ev 0")
     (simp_all add: run_defs prog_defs upt_rec Let_def)

lemma report_statistics_empty: "report_statistics [] s = (Inr (), s)"
  by (simp add: report_statistics_def ret_def)

lemma compare_results_empty:
  "original_latencies = [] \<or> optimized_latencies = [] \<Longrightarrow>
   compare_results original_latencies optimized_latencies s = (Inr (), s)"
  by (auto simp: compare_results_def ret_def)

text \<open>
  Claim C5. On an empty list of samples the statistics block is skipped: it
  returns without an error and leaves the world as it was, and so does the
  comparison when either list is empty. In a run of the comparison in which
  every measured request raises, the run returns normally; in a run of
  \<^verbatim>\<open>test_ultra_optimized\<close> in which the first measured request raises, the
  run ends with that request's exception. In neither is a division reached.
\<close>

theorem no_division_without_samples:
  "report_statistics [] s = (Inr (), s) \<and>
   (original_latencies = [] \<or> optimized_latencies = [] \<longrightarrow>
      compare_results original_latencies optimized_latencies s = (Inr (), s)) \<and>
   ((\<forall>k. k \<noteq> 3 \<longrightarrow> search_result ev k = Raises (msg k)) \<longrightarrow>
      fst (benchmark_original_vs_optimized ev world0) = Inr ()) \<and>
   (search_result ev 1 = Raises m \<longrightarrow>
      fst (test_ultra_optimized ev world0) = Inl (Exception m))"
  using report_statistics_empty compare_results_empty
    benchmark_all_measured_fail [of ev msg] test_ultra_first_measured_fails [of ev m]
  by simp

theorem no_division_without_samples_witness:
  "report_statistics [] world0 = (Inr (), world0) \<and>
   compare_results [] [1 / 10] world0 = (Inr (), world0) \<and>
   fst (benchmark_original_vs_optimized
     \<lparr>search_result = (\<lambda>k. Raises ''down''), clock = (\<lambda>k. real k / 10)\<rparr> world0) = Inr () \<and>
   fst (test_ultra_optimized
     \<lparr>search_result = (\<lambda>k. Raises ''down''), clock = (\<lambda>k. real k / 10)\<rparr> world0) =
     Inl (Exception ''down'')"
  using no_division_without_samples
    [of world0 "[]" "[1 / 10]" "\<lparr>search_result = (\<lambda>k. Raises ''down''), clock = (\<lambda>k. real k / 10)\<rparr>"
        "\<lambda>k. ''down''" "''down''"]
  by simp

section \<open>A measured request that raises: claims C1 and C7\<close>

lemma timing_append: "timing (a @ b) = timing a @ timing b"
  by (simp add: timing_def)

lemma measure_request_returns:
  assumes "search_result ev (searches s) = Returns items"
  shows "measure_request ev h query user_id i latencies s =
    (Inr (latencies @ [clock ev (Suc (ticks s)) - clock ev (ticks s)]),
     s\<lparr>searches := Suc (searches s), ticks := Suc (Suc (ticks s)),
       trace := trace s @
         [Time (clock ev (ticks s)), Search h query user_id, Time (clock ev (Suc (ticks s))),
          Print (RequestLine (i + 1) (clock ev (Suc (ticks s)) - clock ev (ticks s))
                   (emoji (clock ev (Suc (ticks s)) - clock ev (ticks s))))] @
         (if i = 0 then [Print (ResponsePreview (length items))] else [])\<rparr>)"
  using assms by (simp add: measure_request_def prog_defs Let_def)

text \<open>
  The measurement loop of \<^verbatim>\<open>test_ultra_optimized\<close> when every request
  returns: one sample and one request per index, and between the events of one
  request and those of the next nothing but printed lines, so that the timer of
  a request is stopped before the next request is issued.
\<close>

lemma measure_loop_all_return:
  assumes "\<And>k. \<exists>items. search_result ev k = Returns items"
  shows "\<exists>samples s'.
     for_loop is (measure_request ev h query user_id) acc s = (Inr (acc @ samples), s') \<and>
     length samples = length is \<and>
     searches s' = searches s + length is \<and>
     timing (trace s') = timing (trace s) @
       concat (map (\<lambda>j. round_trip ev h query user_id (ticks s + 2 * j)) [0..<length is])"
proof (induction "is" arbitrary: acc s)
  case Nil
  then show ?case by (simp add: ret_def)
next
  case (Cons i rest)
  obtain items where it: "search_result ev (searches s) = Returns items"
    using assms by blast
  define lat where "lat = clock ev (Suc (ticks s)) - clock ev (ticks s)"
  define s1 where "s1 = snd (measure_request ev h query user_id i acc s)"
  have step: "measure_request ev h query user_id i acc s = (Inr (acc @ [lat]), s1)"
    unfolding s1_def lat_def by (simp add: measure_request_returns [OF it])
  have s1: "searches s1 = Suc (searches s)" "ticks s1 = Suc (Suc (ticks s))"
    "timing (trace s1) = timing (trace s) @ round_trip ev h query user_id (ticks s)"
    unfolding s1_def
    by (simp_all add: measure_request_returns [OF it] timing_def round_trip_def)
  obtain samples s' where
    ih: "for_loop rest (measure_request ev h query user_id) (acc @ [lat]) s1 =
           (Inr ((acc @ [lat]) @ samples), s')"
      "length samples = length rest"
      "searches s' = searches s1 + length rest"
      "timing (trace s') = timing (trace s1) @
         concat (map (\<lambda>j. round_trip ev h query user_id (ticks s1 + 2 * j)) [0..<length rest])"
    using Cons.IH [of "acc @ [lat]" s1] by blast
  have shift: "map (\<lambda>j. round_trip ev h query user_id (ticks s + 2 * j)) [0..<Suc (length rest)] =
      round_trip ev h query user_id (ticks s) #
      map (\<lambda>j. round_trip ev h query user_id (ticks s1 + 2 * j)) [0..<length rest]"
    by (simp add: upt_conv_Cons map_Suc_upt [symmetric] s1 del: upt_Suc)
  show ?case
    apply (rule exI [where x = "lat # samples"])
    apply (rule exI [where x = s'])
    using ih s1 shift
    apply (simp add: bnd_def step del: upt_Suc)
    done
qed

lemma measure_request_raises:
  assumes "search_result ev (searches s) = Raises msg"
  shows "measure_request ev h query user_id i latencies s =
    (Inl (Exception msg),
     s\<lparr>searches := Suc (searches s), ticks := Suc (ticks s),
       trace := trace s @ [Time (clock ev (ticks s)), Search h query user_id]\<rparr>)"
  using assms by (simp add: measure_request_def prog_defs Let_def)

text \<open>
  The same loop when the request at position \<open>j\<close> is the first that raises:
  the loop ends with that exception after \<open>j + 1\<close> requests.
\<close>

lemma measure_loop_first_failure:
  assumes "j < length is"
    and "\<And>k. k < j \<Longrightarrow> \<exists>items. search_result ev (searches s + k) = Returns items"
    and "search_result ev (searches s + j) = Raises msg"
  shows "fst (for_loop is (measure_request ev h query user_id) acc s) = Inl (Exception msg) \<and>
     searches (snd (for_loop is (measure_request ev h query user_id) acc s)) =
       searches s + j + 1"
  using assms
proof (induction "is" arbitrary: j acc s)
  case Nil
  then show ?case by simp
next
  case (Cons i rest)
  show ?case
  proof (cases j)
    case 0
    then have "search_result ev (searches s) = Raises msg" using Cons.prems(3) by simp
    then show ?thesis
      using 0 by (simp add: bnd_def measure_request_raises)
  next
    case (Suc j')
    obtain items where it: "search_result ev (searches s) = Returns items"
      using Cons.prems(2) [of 0] Suc by auto
    define s1 where "s1 = snd (measure_request ev h query user_id i acc s)"
    obtain acc1 where step: "measure_request ev h query user_id i acc s = (Inr acc1, s1)"
      unfolding s1_def by (simp add: measure_request_returns [OF it])
    have n1: "searches s1 = Suc (searches s)"
      unfolding s1_def by (simp add: measure_request_returns [OF it])
    have "fst (for_loop rest (measure_request ev h query user_id) acc1 s1) = Inl (Exception msg) \<and>
       searches (snd (for_loop rest (measure_request ev h query user_id) acc1 s1)) =
         searches s1 + j' + 1"
    proof (rule Cons.IH)
      show "j' < length rest" using Cons.prems(1) Suc by simp
      show "\<exists>items. search_result ev (searches s1 + k) = Returns items" if "k < j'" for k
        using Cons.prems(2) [of "Suc k"] that Suc n1 by simp
      show "search_result ev (searches s1 + j') = Raises msg"
        using Cons.prems(3) Suc n1 by simp
    qed
    then show ?thesis
      using Suc n1 by (simp add: bnd_def step)
  qed
qed

text \<open>
  The loops of \<^verbatim>\<open>benchmark_original_vs_optimized\<close> do what claim C1 says:
  whatever the requests do, the loop returns normally after one request per
  index.
\<close>

lemma timed_loop_runs_to_the_end:
  "(\<exists>latencies. fst (for_loop is (timed_request ev h query user_id ok_line failed_line) acc s) =
      Inr latencies) \<and>
   searches (snd (for_loop is (timed_request ev h query user_id ok_line failed_line) acc s)) =
     searches s + length is"
proof -
  have "never_raises (for_loop is (timed_request ev h query user_id ok_line failed_line) acc)"
    by (intro never_raises_intros never_raises_timed_request)
  then show ?thesis
    by (simp add: never_raises_def for_loop_timed_searches)
qed

text \<open>
  Claim C1 at a failing input. The endpoint raises on the measured calls 2 and 4
  of 5 (the search calls 2 and 4, the warm-up being call 0). The run of
  \<^verbatim>\<open>test_ultra_optimized\<close> ends with the exception of call 2: three search
  calls are issued in all, two of them measured, no failure is printed and no
  statistics are computed.
\<close>

theorem measured_failure_aborts_test:
  "test_ultra_optimized
     \<lparr>search_result = (\<lambda>k. if k = 2 \<or> k = 4 then Raises ''timeout'' else Returns []),
      clock = (\<lambda>k. real k / 10)\<rparr> world0 =
   (Inl (Exception ''timeout''),
    \<lparr>clients = [(create_ultra_optimized_client the_api_key, True)],
     searches = 3, ticks = 5,
     trace =
       [Print (Lit ''=== Ultra-Optimized Mem0 Client Test ===''),
        Print (Lit ''Target: 0.1-0.15s latency (down from 0.21s)''),
        Print (Lit []),
        Print (Lit ''Warming up connection...''), Time 0,
        Search 0 the_query the_user_id, Time (1 / 10),
        Print (WarmupCompleted (1 / 10)),
        Print (Lit []),
        Print (Lit ''Measuring latency across multiple requests...''),
        Time (2 / 10), Search 0 the_query the_user_id, Time (3 / 10),
        Print (RequestLine 1 (1 / 10) Green), Print (ResponsePreview 0),
        Time (4 / 10), Search 0 the_query the_user_id,
        Close 0, Print (Lit ''Connection closed'')]\<rparr>)"
  by (simp add: run_defs prog_defs upt_rec Let_def emoji_def)

text \<open>
  Claim C7 at a failing input. The endpoint raises on the first measured call.
  The measurement phase of \<^verbatim>\<open>test_ultra_optimized\<close> issues that one request
  and no other: two search calls in all, the warm-up and one measured request,
  not five.
\<close>

theorem measurement_stops_short:
  "test_ultra_optimized
     \<lparr>search_result = (\<lambda>k. if k = 1 then Raises ''timeout'' else Returns []),
      clock = (\<lambda>k. real k / 10)\<rparr> world0 =
   (Inl (Exception ''timeout''),
    \<lparr>clients = [(create_ultra_optimized_client the_api_key, True)],
     searches = 2, ticks = 3,
     trace =
       [Print (Lit ''=== Ultra-Optimized Mem0 Client Test ===''),
        Print (Lit ''Target: 0.1-0.15s latency (down from 0.21s)''),
        Print (Lit []),
        Print (Lit ''Warming up connection...''), Time 0,
        Search 0 the_query the_user_id, Time (1 / 10),
        Print (WarmupCompleted (1 / 10)),
        Print (Lit []),
        Print (Lit ''Measuring latency across multiple requests...''),
        Time (2 / 10), Search 0 the_query the_user_id,
        Close 0, Print (Lit ''Connection closed'')]\<rparr>)"
  by (simp add: run_defs prog_defs upt_rec Let_def emoji_def)

end
